theory Spec2Isabelle
  imports Main
begin

section \<open>The manager's bus interface (src/core/dbus-manager.c)\<close>

text \<open>
  A shallow embedding of the method handlers and of the signal fan-out of
  \<^verbatim>\<open>dbus-manager.c\<close>. Pointers to connections are identities (\<open>sd_bus\<close>), the sets and
  hashmaps of the manager are lists in iteration order, every early \<^verbatim>\<open>return\<close> of a
  handler is a branch of the model, and a failed \<^verbatim>\<open>assert\<close> is the outcome \<open>Aborted\<close>.
\<close>

subsection \<open>Data\<close>

type_synonym sd_bus = nat

datatype bus_arg = ArgS string | ArgB bool | ArgU nat | ArgT nat | ArgAS "string list"

record sd_bus_message =
  sender :: string
  body :: "bus_arg list"

datatype bus_error =
    BUS_ERROR_NO_SUCH_UNIT
  | BUS_ERROR_NO_SUCH_JOB
  | BUS_ERROR_NO_UNIT_FOR_PID
  | BUS_ERROR_UNIT_EXISTS
  | BUS_ERROR_ALREADY_SUBSCRIBED
  | BUS_ERROR_NOT_SUBSCRIBED
  | SD_BUS_ERROR_NOT_SUPPORTED
  | SD_BUS_ERROR_INVALID_ARGS
  | SD_BUS_ERROR_ACCESS_DENIED

text \<open>
  A handler that fails either fills in the \<^verbatim>\<open>sd_bus_error\<close> (\<open>Fault\<close>: the symbolic
  name and the formatted message of \<^verbatim>\<open>sd_bus_error_setf\<close>) or returns a bare negative
  errno (\<open>Errno\<close>).
\<close>

datatype failure = Fault bus_error string | Errno int

datatype SystemdRunningAs = SYSTEMD_SYSTEM | SYSTEMD_USER

datatype ManagerExitCode =
    MANAGER_RUNNING
  | MANAGER_EXIT
  | MANAGER_RELOAD
  | MANAGER_REEXECUTE
  | MANAGER_REBOOT
  | MANAGER_POWEROFF
  | MANAGER_HALT
  | MANAGER_KEXEC
  | MANAGER_SWITCH_ROOT

text \<open>
  The exit codes are those of manager.h; the file assigns all of them but
  \<open>MANAGER_RUNNING\<close>, the value before any request, and \<open>MANAGER_SWITCH_ROOT\<close>. Of the
  types of units the file names \<open>UNIT_SNAPSHOT\<close> only; two others stand for the rest.
  States, job types and kinds of changes are numbers that the file only passes to their
  \<^verbatim>\<open>..._to_string\<close> functions. The \<^verbatim>\<open>uint32_t\<close> id of a job is a natural number; the
  file does no arithmetic on it. A job refers to its unit by the id of the unit.
\<close>

datatype UnitType = UNIT_SERVICE | UNIT_TARGET | UNIT_SNAPSHOT

record Job =
  id_job :: nat
  type_job :: nat
  state_job :: nat
  unit_job :: string

record Unit =
  id_unit :: string
  type_unit :: UnitType
  load_state :: nat
  job :: "Job option"

record BusTrackedClient =
  bus :: sd_bus
  name :: string

record Manager =
  units :: "(string \<times> Unit) list"
  jobs :: "(nat \<times> Job) list"
  subscribed :: "BusTrackedClient list"
  private_buses :: "sd_bus list"
  api_bus :: "sd_bus option"
  queued_message :: "sd_bus_message option"
  queued_message_bus :: "sd_bus option"
  exit_code :: ManagerExitCode
  running_as :: SystemdRunningAs
  switch_root :: "string option"
  switch_root_init :: "string option"
  taint_usr :: bool
  finish_timestamp :: nat
  n_installed_jobs :: nat
  runtime_watchdog :: nat

definition ENOMEM :: int where
  "ENOMEM = 12"

definition ENXIO :: int where
  "ENXIO = 6"

definition EPIPE :: int where
  "EPIPE = 32"

definition isempty :: "string \<Rightarrow> bool" where
  "isempty s = (s = [])"

subsection \<open>The fan-out of signals: \<^verbatim>\<open>bus_manager_foreach_client\<close>\<close>

text \<open>
  The callback \<open>send_message\<close> is called with a connection and a destination (\<open>None\<close> is
  the C \<^verbatim>\<open>NULL\<close>) and returns an \<^verbatim>\<open>int\<close>, negative on failure. Beside the value returned
  to the caller, the model gives the calls of the callback in the order they are made.

  \<open>foreach_private_bus\<close> is the \<^verbatim>\<open>SET_FOREACH\<close> loop over \<^verbatim>\<open>m->private_buses\<close>: \<open>Some r\<close> is
  the \<^verbatim>\<open>return r\<close> inside the loop, \<open>None\<close> is the loop running to its end. With one
  subscriber \<^verbatim>\<open>set_first\<close> gives it, so that \<^verbatim>\<open>assert_se\<close> cannot fail; the branch for
  the empty set under \<open>n = 1\<close> is never taken.
\<close>

type_synonym send = "sd_bus \<times> string option"

fun foreach_private_bus :: "(sd_bus \<Rightarrow> string option \<Rightarrow> int) \<Rightarrow> sd_bus list \<Rightarrow> int option \<times> send list" where
  "foreach_private_bus send_message [] = (None, [])"
| "foreach_private_bus send_message (b # bs) =
     (let r = send_message b None in
      if r < 0 then (Some r, [(b, None)])
      else (case foreach_private_bus send_message bs of
              (ret, sent) \<Rightarrow> (ret, (b, None) # sent)))"

definition bus_manager_foreach_client :: "Manager \<Rightarrow> (sd_bus \<Rightarrow> string option \<Rightarrow> int) \<Rightarrow> int \<times> send list" where
  "bus_manager_foreach_client m send_message =
     (let n = length (subscribed m) in
      if n \<le> 0 then (0, [])
      else if n = 1 then
        (case subscribed m of
           d # _ \<Rightarrow>
             (let destination = (if isempty (name d) then None else Some (name d)) in
              (send_message (bus d) destination, [(bus d, destination)]))
         | [] \<Rightarrow> (0, []))
      else
        (case foreach_private_bus send_message (private_buses m) of
           (Some r, sent) \<Rightarrow> (r, sent)
         | (None, sent) \<Rightarrow>
             (case api_bus m of
                Some a \<Rightarrow> (send_message a None, sent @ [(a, None)])
              | None \<Rightarrow> (0, sent))))"

subsection \<open>Outcomes of a handler, and what it does on the way\<close>

type_synonym unit_entry =
  "string \<times> string \<times> string \<times> string \<times> string \<times> string \<times> string \<times> nat \<times> string \<times> string"

datatype reply =
    ReplyEmpty
  | ReplyObjectPath string
  | ReplyUnits "unit_entry list"
  | ReplyChanges "bool option" "(string \<times> string \<times> string) list"
  | ReplyString string
  | ReplyU32 nat
  | ReplyProgress "(nat \<times> nat) option"
  | ReplyJobs "(nat \<times> string \<times> string \<times> string \<times> string \<times> string) list"
  | ReplyUnitFiles "(string \<times> string) list"

text \<open>
  \<open>Failed\<close>: the handler returns a negative value before it has a reply to send;
  \<open>Replied v\<close>: it ends with \<^verbatim>\<open>return sd_bus_reply_method_return(...)\<close> or
  \<^verbatim>\<open>return sd_bus_send(...)\<close> for the reply \<open>v\<close>, whose value it returns; \<open>NoReply\<close>: it
  returns 1 and sends nothing; \<open>Aborted\<close>: an \<^verbatim>\<open>assert\<close> of the handler fails. A handler
  that ends with a call of dbus-unit.c or dbus-snapshot.c has the outcome of that call.
\<close>

datatype result = Failed failure | Replied reply | NoReply | Aborted

text \<open>
  What is appended to a reply that is built piece by piece: the leading boolean of a
  reply with changes, one entry of ListUnits, one change.
\<close>

datatype bus_item =
    ItemBool bool
  | ItemUnitEntry unit_entry
  | ItemChange "string \<times> string \<times> string"
  | ItemJobEntry "nat \<times> string \<times> string \<times> string \<times> string \<times> string"
  | ItemUnitFile "string \<times> string"

text \<open>
  The calls a handler makes to its collaborators, in the order it makes them.
  \<open>EvForeachClient r sent\<close> is one call of \<^verbatim>\<open>bus_manager_foreach_client\<close>, with the value
  it returned and the sends it made.
\<close>

datatype event =
    EvAccessCheck string
  | EvUnitAccessCheck string string
  | EvGetUnit string
  | EvGetJob nat
  | EvGetUnitByPid nat
  | EvLoadUnit string
  | EvCall string
  | EvPathIsOsTree string
  | EvAccess string
  | EvUnitFileCall
  | EvSnapshotRemove string
  | EvForeachClient int "send list"

datatype UnitFileScope = UNIT_FILE_SYSTEM | UNIT_FILE_USER

record UnitFileChange =
  type_change :: nat
  path :: string
  source :: string

text \<open>
  The collaborators of the handlers live in other files (selinux-access.c, unit.c, job.c,
  path-util.c, dbus-snapshot.c, libsystemd-bus, libc); the handlers take them as the
  fields of an environment. The access checks give \<open>None\<close> for \<^verbatim>\<open>r >= 0\<close> and the failure
  they report otherwise; \<open>selinux_unit_access_check\<close> is given the id of the unit it is
  called for. The allocating functions give \<open>None\<close> for \<^verbatim>\<open>NULL\<close>; \<open>access_X_OK p\<close> is
  \<^verbatim>\<open>access(p, X_OK) >= 0\<close>. The functions that return an \<^verbatim>\<open>int\<close> return it here; those
  that work on the reply under construction are given the request it answers.
\<close>

record Env =
  selinux_access_check :: "sd_bus \<Rightarrow> sd_bus_message \<Rightarrow> string \<Rightarrow> failure option"
  selinux_unit_access_check :: "string \<Rightarrow> sd_bus \<Rightarrow> sd_bus_message \<Rightarrow> string \<Rightarrow> failure option"
  sd_bus_message_new_method_return :: "sd_bus_message \<Rightarrow> int"
  sd_bus_message_open_container :: "sd_bus_message \<Rightarrow> string \<Rightarrow> int"
  sd_bus_message_append :: "sd_bus_message \<Rightarrow> bus_item \<Rightarrow> int"
  sd_bus_message_close_container :: "sd_bus_message \<Rightarrow> int"
  sd_bus_message_new_signal :: "sd_bus \<Rightarrow> string \<Rightarrow> int"
  sd_bus_send_to :: "sd_bus \<Rightarrow> string \<Rightarrow> string option \<Rightarrow> int"
  unit_dbus_path :: "Unit \<Rightarrow> string option"
  job_dbus_path :: "Job \<Rightarrow> string option"
  unit_description :: "Unit \<Rightarrow> string"
  unit_load_state_to_string :: "nat \<Rightarrow> string"
  unit_active_state :: "Unit \<Rightarrow> nat"
  unit_active_state_to_string :: "nat \<Rightarrow> string"
  unit_sub_state_to_string :: "Unit \<Rightarrow> string"
  unit_following :: "Unit \<Rightarrow> Unit option"
  job_type_to_string :: "nat \<Rightarrow> string"
  unit_file_change_type_to_string :: "nat \<Rightarrow> string"
  path_equal :: "string \<Rightarrow> string \<Rightarrow> bool"
  path_is_absolute :: "string \<Rightarrow> bool"
  path_is_os_tree :: "string \<Rightarrow> bool"
  access_X_OK :: "string \<Rightarrow> bool"
  strdup :: "string \<Rightarrow> string option"
  strappend :: "string \<Rightarrow> string \<Rightarrow> string option"
  bus_snapshot_method_remove :: "sd_bus \<Rightarrow> sd_bus_message \<Rightarrow> Unit \<Rightarrow> Manager \<Rightarrow> result \<times> Manager"

text \<open>
  The operations on unit files (install.c) that the batch handlers are instantiated with.
  Their \<^verbatim>\<open>root_dir\<close> argument is always \<^verbatim>\<open>NULL\<close> here and is left out; they return their
  \<^verbatim>\<open>int\<close> and the changes they stored through \<^verbatim>\<open>changes\<close> and \<^verbatim>\<open>n_changes\<close>.
\<close>

type_synonym enable_call = "UnitFileScope \<Rightarrow> bool \<Rightarrow> string list \<Rightarrow> bool \<Rightarrow> int \<times> UnitFileChange list"

type_synonym disable_call = "UnitFileScope \<Rightarrow> bool \<Rightarrow> string list \<Rightarrow> int \<times> UnitFileChange list"

record Install =
  unit_file_enable :: enable_call
  unit_file_reenable :: enable_call
  unit_file_link :: enable_call
  unit_file_preset :: enable_call
  unit_file_mask :: enable_call
  unit_file_disable :: disable_call
  unit_file_unmask :: disable_call
  unit_file_set_default :: "UnitFileScope \<Rightarrow> string \<Rightarrow> bool \<Rightarrow> int \<times> UnitFileChange list"

subsection \<open>Reading the arguments of a request\<close>

text \<open>
  Modelled from the spec: \<^verbatim>\<open>sd_bus_message_read\<close> and \<^verbatim>\<open>sd_bus_message_read_strv\<close> belong to
  the wire codec (libsystemd-bus), which is not part of the file. They decode the next
  arguments of the payload against a signature; a payload that does not match gives a
  negative return value, which the handlers pass on.
\<close>

fun sd_bus_message_read_s :: "bus_arg list \<Rightarrow> int + (string \<times> bus_arg list)" where
  "sd_bus_message_read_s (ArgS s # rest) = Inr (s, rest)"
| "sd_bus_message_read_s _ = Inl (- ENXIO)"

fun sd_bus_message_read_b :: "bus_arg list \<Rightarrow> int + (bool \<times> bus_arg list)" where
  "sd_bus_message_read_b (ArgB v # rest) = Inr (v, rest)"
| "sd_bus_message_read_b _ = Inl (- ENXIO)"



fun sd_bus_message_read_strv :: "bus_arg list \<Rightarrow> int + (string list \<times> bus_arg list)" where
  "sd_bus_message_read_strv (ArgAS l # rest) = Inr (l, rest)"
| "sd_bus_message_read_strv _ = Inl (- ENXIO)"

definition sd_bus_message_read_ss :: "bus_arg list \<Rightarrow> int + ((string \<times> string) \<times> bus_arg list)" where
  "sd_bus_message_read_ss args =
     (case sd_bus_message_read_s args of
        Inl r \<Rightarrow> Inl r
      | Inr (a, rest) \<Rightarrow>
          (case sd_bus_message_read_s rest of
             Inl r \<Rightarrow> Inl r
           | Inr (c, rest') \<Rightarrow> Inr ((a, c), rest')))"

definition sd_bus_message_read_bb :: "bus_arg list \<Rightarrow> int + ((bool \<times> bool) \<times> bus_arg list)" where
  "sd_bus_message_read_bb args =
     (case sd_bus_message_read_b args of
        Inl r \<Rightarrow> Inl r
      | Inr (a, rest) \<Rightarrow>
          (case sd_bus_message_read_b rest of
             Inl r \<Rightarrow> Inl r
           | Inr (c, rest') \<Rightarrow> Inr ((a, c), rest')))"

definition sd_bus_message_read_sb :: "bus_arg list \<Rightarrow> int + ((string \<times> bool) \<times> bus_arg list)" where
  "sd_bus_message_read_sb args =
     (case sd_bus_message_read_s args of
        Inl r \<Rightarrow> Inl r
      | Inr (a, rest) \<Rightarrow>
          (case sd_bus_message_read_b rest of
             Inl r \<Rightarrow> Inl r
           | Inr (c, rest') \<Rightarrow> Inr ((a, c), rest')))"

subsection \<open>Looking up units and jobs\<close>

text \<open>
  Modelled from the spec: \<^verbatim>\<open>manager_get_unit\<close> and \<^verbatim>\<open>manager_get_job\<close> (manager.c) are not
  part of the file. They resolve a target object from the supervisor core by name or by
  numeric id, and give nothing when no such object exists.
\<close>

definition manager_get_unit :: "Manager \<Rightarrow> string \<Rightarrow> Unit option" where
  "manager_get_unit m n = map_of (units m) n"


text \<open>The decimal digits of an unsigned number, as \<^verbatim>\<open>%u\<close> prints them.\<close>

definition digit_char :: "nat \<Rightarrow> char" where
  "digit_char d = ''0123456789'' ! d"

fun string_of_uint :: "nat \<Rightarrow> string" where
  "string_of_uint n =
     (if n < 10 then [digit_char n]
      else string_of_uint (n div 10) @ [digit_char (n mod 10)])"

declare string_of_uint.simps [simp del]

subsection \<open>GetUnit and GetJob\<close>



subsection \<open>ListUnits\<close>

text \<open>
  The body of the loop of \<^verbatim>\<open>method_list_units\<close> after its \<^verbatim>\<open>continue\<close>: the entry of one
  unit, or \<^verbatim>\<open>-ENOMEM\<close> when a path cannot be allocated.
\<close>

definition list_units_entry :: "Env \<Rightarrow> Unit \<Rightarrow> int + unit_entry" where
  "list_units_entry env u =
     (case unit_dbus_path env u of
        None \<Rightarrow> Inl (- ENOMEM)
      | Some unit_path \<Rightarrow>
          (case (case job u of
                   None \<Rightarrow> Inr None
                 | Some j \<Rightarrow>
                     (case job_dbus_path env j of
                        None \<Rightarrow> Inl (- ENOMEM)
                      | Some p \<Rightarrow> Inr (Some p))) of
             Inl r \<Rightarrow> Inl r
           | Inr job_path \<Rightarrow>
               Inr (id_unit u,
                    unit_description env u,
                    unit_load_state_to_string env (load_state u),
                    unit_active_state_to_string env (unit_active_state env u),
                    unit_sub_state_to_string env u,
                    (case unit_following env u of Some following \<Rightarrow> id_unit following | None \<Rightarrow> []),
                    unit_path,
                    (case job u of Some j \<Rightarrow> id_job j | None \<Rightarrow> 0),
                    (case job u of Some j \<Rightarrow> job_type_to_string env (type_job j) | None \<Rightarrow> []),
                    (case job_path of Some p \<Rightarrow> p | None \<Rightarrow> ''/''))))"

text \<open>
  \<^verbatim>\<open>HASHMAP_FOREACH_KEY(u, k, m->units, i)\<close>. The test \<^verbatim>\<open>k != u->id\<close> compares pointers: a
  unit is entered in the hashmap under each of its names, the key being the unit's own
  copy of the name, and \<^verbatim>\<open>u->id\<close> points to one of these copies. Keys of a hashmap are
  distinct as strings, so the pointers differ exactly when the strings do.
\<close>

fun list_units_loop :: "Env \<Rightarrow> sd_bus_message \<Rightarrow> (string \<times> Unit) list \<Rightarrow> int + unit_entry list" where
  "list_units_loop env message [] = Inr []"
| "list_units_loop env message ((k, u) # rest) =
     (if k \<noteq> id_unit u then list_units_loop env message rest
      else (case list_units_entry env u of
              Inl r \<Rightarrow> Inl r
            | Inr e \<Rightarrow>
                (let r = sd_bus_message_append env message (ItemUnitEntry e) in
                 if r < 0 then Inl r
                 else (case list_units_loop env message rest of
                         Inl r \<Rightarrow> Inl r
                       | Inr es \<Rightarrow> Inr (e # es)))))"

definition method_list_units :: "Env \<Rightarrow> sd_bus \<Rightarrow> sd_bus_message \<Rightarrow> Manager \<Rightarrow> result \<times> Manager \<times> event list" where
  "method_list_units env b message m =
     (case selinux_access_check env b message ''status'' of
        Some f \<Rightarrow> (Failed f, m, [EvAccessCheck ''status''])
      | None \<Rightarrow>
          (let r = sd_bus_message_new_method_return env message in
           if r < 0 then (Failed (Errno r), m, [EvAccessCheck ''status''])
           else
             (let r = sd_bus_message_open_container env message ''(ssssssouso)'' in
              if r < 0 then (Failed (Errno r), m, [EvAccessCheck ''status''])
              else
                (case list_units_loop env message (units m) of
                   Inl r \<Rightarrow> (Failed (Errno r), m, [EvAccessCheck ''status''])
                 | Inr es \<Rightarrow>
                     (let r = sd_bus_message_close_container env message in
                      if r < 0 then (Failed (Errno r), m, [EvAccessCheck ''status''])
                      else (Replied (ReplyUnits es), m, [EvAccessCheck ''status'']))))))"

subsection \<open>Subscribe and Unsubscribe\<close>

text \<open>
  Modelled from the spec: \<^verbatim>\<open>bus_client_track\<close> and \<^verbatim>\<open>bus_client_untrack\<close>
  (dbus-client-track.c) are not part of the file. The registry is a set of subscribers
  keyed by the pair of endpoint and destination; \<open>subscribe\<close> adds the endpoint and
  reports when it is already present, \<open>unsubscribe\<close> removes it and reports when it is
  absent. The handlers tell the two reports apart by the return value: 0 is "already
  present" (or "absent"), a positive value is "added" (or "removed").
\<close>

definition bus_client_track :: "BusTrackedClient list \<Rightarrow> sd_bus \<Rightarrow> string \<Rightarrow> int \<times> BusTrackedClient list" where
  "bus_client_track s b n =
     (if \<lparr> bus = b, name = n \<rparr> \<in> set s then (0, s)
      else (1, s @ [\<lparr> bus = b, name = n \<rparr>]))"

definition bus_client_untrack :: "BusTrackedClient list \<Rightarrow> sd_bus \<Rightarrow> string \<Rightarrow> int \<times> BusTrackedClient list" where
  "bus_client_untrack s b n =
     (if \<lparr> bus = b, name = n \<rparr> \<in> set s then (1, removeAll \<lparr> bus = b, name = n \<rparr> s)
      else (0, s))"

definition method_subscribe :: "Env \<Rightarrow> sd_bus \<Rightarrow> sd_bus_message \<Rightarrow> Manager \<Rightarrow> result \<times> Manager \<times> event list" where
  "method_subscribe env b message m =
     (case selinux_access_check env b message ''status'' of
        Some f \<Rightarrow> (Failed f, m, [EvAccessCheck ''status''])
      | None \<Rightarrow>
          (case bus_client_track (subscribed m) b (sender message) of
             (r, s) \<Rightarrow>
               if r < 0 then (Failed (Errno r), m \<lparr> subscribed := s \<rparr>, [EvAccessCheck ''status''])
               else if r = 0 then
                 (Failed (Fault BUS_ERROR_ALREADY_SUBSCRIBED ''Client is already subscribed.''),
                  m \<lparr> subscribed := s \<rparr>, [EvAccessCheck ''status''])
               else (Replied ReplyEmpty, m \<lparr> subscribed := s \<rparr>, [EvAccessCheck ''status''])))"

definition method_unsubscribe :: "Env \<Rightarrow> sd_bus \<Rightarrow> sd_bus_message \<Rightarrow> Manager \<Rightarrow> result \<times> Manager \<times> event list" where
  "method_unsubscribe env b message m =
     (case selinux_access_check env b message ''status'' of
        Some f \<Rightarrow> (Failed f, m, [EvAccessCheck ''status''])
      | None \<Rightarrow>
          (case bus_client_untrack (subscribed m) b (sender message) of
             (r, s) \<Rightarrow>
               if r < 0 then (Failed (Errno r), m \<lparr> subscribed := s \<rparr>, [EvAccessCheck ''status''])
               else if r = 0 then
                 (Failed (Fault BUS_ERROR_NOT_SUBSCRIBED ''Client is not subscribed.''),
                  m \<lparr> subscribed := s \<rparr>, [EvAccessCheck ''status''])
               else (Replied ReplyEmpty, m \<lparr> subscribed := s \<rparr>, [EvAccessCheck ''status''])))"

subsection \<open>RemoveSnapshot\<close>

definition method_remove_snapshot :: "Env \<Rightarrow> sd_bus \<Rightarrow> sd_bus_message \<Rightarrow> Manager \<Rightarrow> result \<times> Manager \<times> event list" where
  "method_remove_snapshot env b message m =
     (case selinux_access_check env b message ''stop'' of
        Some f \<Rightarrow> (Failed f, m, [EvAccessCheck ''stop''])
      | None \<Rightarrow>
          (case sd_bus_message_read_s (body message) of
             Inl r \<Rightarrow> (Failed (Errno r), m, [EvAccessCheck ''stop''])
           | Inr (n, rest) \<Rightarrow>
               (case manager_get_unit m n of
                  None \<Rightarrow>
                    (Failed (Fault BUS_ERROR_NO_SUCH_UNIT (''Unit '' @ n @ '' does not exist.'')), m,
                     [EvAccessCheck ''stop'', EvGetUnit n])
                | Some u \<Rightarrow>
                    if type_unit u \<noteq> UNIT_SNAPSHOT then
                      (Failed (Fault BUS_ERROR_NO_SUCH_UNIT (''Unit '' @ n @ '' is not a snapshot'')), m,
                       [EvAccessCheck ''stop'', EvGetUnit n])
                    else
                      (case bus_snapshot_method_remove env b message u m of
                         (res, m') \<Rightarrow>
                           (res, m', [EvAccessCheck ''stop'', EvGetUnit n, EvSnapshotRemove (id_unit u)])))))"

subsection \<open>Reload and Reexecute\<close>

text \<open>
  \<open>queued_message\<close> holds the method return allocated for a request, which is kept here
  as the request it answers.
\<close>

definition method_reload :: "Env \<Rightarrow> sd_bus \<Rightarrow> sd_bus_message \<Rightarrow> Manager \<Rightarrow> result \<times> Manager \<times> event list" where
  "method_reload env b message m =
     (case selinux_access_check env b message ''reload'' of
        Some f \<Rightarrow> (Failed f, m, [EvAccessCheck ''reload''])
      | None \<Rightarrow>
          if queued_message m \<noteq> None then (Aborted, m, [EvAccessCheck ''reload''])
          else
            (let r = sd_bus_message_new_method_return env message in
             if r < 0 then (Failed (Errno r), m, [EvAccessCheck ''reload''])
             else
               (NoReply,
                m \<lparr> queued_message := Some message, queued_message_bus := Some b,
                    exit_code := MANAGER_RELOAD \<rparr>,
                [EvAccessCheck ''reload''])))"


subsection \<open>Exit, Reboot, PowerOff, Halt, KExec\<close>

definition method_exit :: "Env \<Rightarrow> sd_bus \<Rightarrow> sd_bus_message \<Rightarrow> Manager \<Rightarrow> result \<times> Manager \<times> event list" where
  "method_exit env b message m =
     (case selinux_access_check env b message ''halt'' of
        Some f \<Rightarrow> (Failed f, m, [EvAccessCheck ''halt''])
      | None \<Rightarrow>
          if running_as m = SYSTEMD_SYSTEM then
            (Failed (Fault SD_BUS_ERROR_NOT_SUPPORTED ''Exit is only supported for user service managers.''),
             m, [EvAccessCheck ''halt''])
          else (Replied ReplyEmpty, m \<lparr> exit_code := MANAGER_EXIT \<rparr>, [EvAccessCheck ''halt'']))"

definition method_reboot :: "Env \<Rightarrow> sd_bus \<Rightarrow> sd_bus_message \<Rightarrow> Manager \<Rightarrow> result \<times> Manager \<times> event list" where
  "method_reboot env b message m =
     (case selinux_access_check env b message ''reboot'' of
        Some f \<Rightarrow> (Failed f, m, [EvAccessCheck ''reboot''])
      | None \<Rightarrow>
          if running_as m \<noteq> SYSTEMD_SYSTEM then
            (Failed (Fault SD_BUS_ERROR_NOT_SUPPORTED ''Reboot is only supported for system managers.''),
             m, [EvAccessCheck ''reboot''])
          else (Replied ReplyEmpty, m \<lparr> exit_code := MANAGER_REBOOT \<rparr>, [EvAccessCheck ''reboot'']))"

definition method_poweroff :: "Env \<Rightarrow> sd_bus \<Rightarrow> sd_bus_message \<Rightarrow> Manager \<Rightarrow> result \<times> Manager \<times> event list" where
  "method_poweroff env b message m =
     (case selinux_access_check env b message ''halt'' of
        Some f \<Rightarrow> (Failed f, m, [EvAccessCheck ''halt''])
      | None \<Rightarrow>
          if running_as m \<noteq> SYSTEMD_SYSTEM then
            (Failed (Fault SD_BUS_ERROR_NOT_SUPPORTED ''Powering off is only supported for system managers.''),
             m, [EvAccessCheck ''halt''])
          else (Replied ReplyEmpty, m \<lparr> exit_code := MANAGER_POWEROFF \<rparr>, [EvAccessCheck ''halt'']))"

definition method_halt :: "Env \<Rightarrow> sd_bus \<Rightarrow> sd_bus_message \<Rightarrow> Manager \<Rightarrow> result \<times> Manager \<times> event list" where
  "method_halt env b message m =
     (case selinux_access_check env b message ''halt'' of
        Some f \<Rightarrow> (Failed f, m, [EvAccessCheck ''halt''])
      | None \<Rightarrow>
          if running_as m \<noteq> SYSTEMD_SYSTEM then
            (Failed (Fault SD_BUS_ERROR_NOT_SUPPORTED ''Halt is only supported for system managers.''),
             m, [EvAccessCheck ''halt''])
          else (Replied ReplyEmpty, m \<lparr> exit_code := MANAGER_HALT \<rparr>, [EvAccessCheck ''halt'']))"

definition method_kexec :: "Env \<Rightarrow> sd_bus \<Rightarrow> sd_bus_message \<Rightarrow> Manager \<Rightarrow> result \<times> Manager \<times> event list" where
  "method_kexec env b message m =
     (case selinux_access_check env b message ''reboot'' of
        Some f \<Rightarrow> (Failed f, m, [EvAccessCheck ''reboot''])
      | None \<Rightarrow>
          if running_as m \<noteq> SYSTEMD_SYSTEM then
            (Failed (Fault SD_BUS_ERROR_NOT_SUPPORTED ''KExec is only supported for system managers.''),
             m, [EvAccessCheck ''reboot''])
          else (Replied ReplyEmpty, m \<lparr> exit_code := MANAGER_KEXEC \<rparr>, [EvAccessCheck ''reboot'']))"

subsection \<open>SwitchRoot\<close>

text \<open>
  The block under \<^verbatim>\<open>/* Safety check */\<close>: the failure it returns with, if any, and the
  look it takes at the file system.
\<close>

definition switch_root_safety_check :: "Env \<Rightarrow> string \<Rightarrow> string \<Rightarrow> failure option \<times> event list" where
  "switch_root_safety_check env root init =
     (if isempty init then
        (if \<not> path_is_os_tree env root then
           (Some (Fault SD_BUS_ERROR_INVALID_ARGS
                    (''Specified switch root path '' @ root @
                     '' does not seem to be an OS tree. /etc/os-release is missing.'')),
            [EvPathIsOsTree root])
         else (None, [EvPathIsOsTree root]))
      else
        (if \<not> path_is_absolute env init then
           (Some (Fault SD_BUS_ERROR_INVALID_ARGS (''Invalid init path '' @ init)), [])
         else
           (case strappend env root init of
              None \<Rightarrow> (Some (Errno (- ENOMEM)), [])
            | Some p \<Rightarrow>
                if \<not> access_X_OK env p then
                  (Some (Fault SD_BUS_ERROR_INVALID_ARGS
                           (''Specified init binary '' @ p @ '' does not exist.'')),
                   [EvAccess p])
                else (None, [EvAccess p]))))"

definition method_switch_root :: "Env \<Rightarrow> sd_bus \<Rightarrow> sd_bus_message \<Rightarrow> Manager \<Rightarrow> result \<times> Manager \<times> event list" where
  "method_switch_root env b message m =
     (case selinux_access_check env b message ''reboot'' of
        Some f \<Rightarrow> (Failed f, m, [EvAccessCheck ''reboot''])
      | None \<Rightarrow>
          if running_as m \<noteq> SYSTEMD_SYSTEM then
            (Failed (Fault SD_BUS_ERROR_NOT_SUPPORTED ''KExec is only supported for system managers.''),
             m, [EvAccessCheck ''reboot''])
          else
            (case sd_bus_message_read_ss (body message) of
               Inl r \<Rightarrow> (Failed (Errno r), m, [EvAccessCheck ''reboot''])
             | Inr ((root, init), rest) \<Rightarrow>
                 if path_equal env root ''/'' \<or> \<not> path_is_absolute env root then
                   (Failed (Fault SD_BUS_ERROR_INVALID_ARGS (''Invalid switch root path '' @ root)),
                    m, [EvAccessCheck ''reboot''])
                 else
                   (case switch_root_safety_check env root init of
                      (Some f, evs) \<Rightarrow> (Failed f, m, EvAccessCheck ''reboot'' # evs)
                    | (None, evs) \<Rightarrow>
                        (case strdup env root of
                           None \<Rightarrow> (Failed (Errno (- ENOMEM)), m, EvAccessCheck ''reboot'' # evs)
                         | Some rt \<Rightarrow>
                             (case (if \<not> isempty init
                                    then (case strdup env init of
                                            None \<Rightarrow> Inl (- ENOMEM)
                                          | Some v \<Rightarrow> Inr (Some v))
                                    else Inr None) of
                                Inl r \<Rightarrow> (Failed (Errno r), m, EvAccessCheck ''reboot'' # evs)
                              | Inr ri \<Rightarrow>
                                  (Replied ReplyEmpty,
                                   m \<lparr> switch_root := Some rt, switch_root_init := ri \<rparr>,
                                   EvAccessCheck ''reboot'' # evs))))))"

subsection \<open>The batch operations on unit files\<close>

definition send_unit_files_changed :: "Env \<Rightarrow> sd_bus \<Rightarrow> string option \<Rightarrow> int" where
  "send_unit_files_changed env b destination =
     (let r = sd_bus_message_new_signal env b ''UnitFilesChanged'' in
      if r < 0 then r
      else sd_bus_send_to env b ''UnitFilesChanged'' destination)"

text \<open>
  The loop that appends the changes to the reply: the negative value of the append that
  fails, if one does.
\<close>

fun append_changes :: "Env \<Rightarrow> sd_bus_message \<Rightarrow> (string \<times> string \<times> string) list \<Rightarrow> int option" where
  "append_changes env message [] = None"
| "append_changes env message (c # cs) =
     (let r = sd_bus_message_append env message (ItemChange c) in
      if r < 0 then Some r else append_changes env message cs)"

text \<open>
  \<open>carries_install_info\<close> is the \<^verbatim>\<open>int\<close> of the source: negative for a reply without the
  leading boolean. \<^verbatim>\<open>n_changes\<close> is the length of \<open>changes\<close>.
\<close>

definition reply_unit_file_changes_and_free ::
  "Env \<Rightarrow> Manager \<Rightarrow> sd_bus \<Rightarrow> sd_bus_message \<Rightarrow> int \<Rightarrow> UnitFileChange list \<Rightarrow> result \<times> event list" where
  "reply_unit_file_changes_and_free env m b message carries_install_info changes =
     (let evs = (if length changes > 0
                 then (case bus_manager_foreach_client m (send_unit_files_changed env) of
                         (r, sent) \<Rightarrow> [EvForeachClient r sent])
                 else []);
          items = map (\<lambda>c. (unit_file_change_type_to_string env (type_change c), path c, source c))
                    changes;
          r = sd_bus_message_new_method_return env message;
          res =
            (if r < 0 then Failed (Errno r)
             else
               (let r = (if carries_install_info \<ge> 0
                         then sd_bus_message_append env message (ItemBool (carries_install_info \<noteq> 0))
                         else r) in
                if r < 0 then Failed (Errno r)
                else
                  (let r = sd_bus_message_open_container env message ''(sss)'' in
                   if r < 0 then Failed (Errno r)
                   else
                     (case append_changes env message items of
                        Some r \<Rightarrow> Failed (Errno r)
                      | None \<Rightarrow>
                          (let r = sd_bus_message_close_container env message in
                           if r < 0 then Failed (Errno r)
                           else
                             Replied
                               (ReplyChanges
                                  (if carries_install_info \<ge> 0 then Some (carries_install_info \<noteq> 0)
                                   else None)
                                  items))))))
      in (res, evs))"

definition unit_file_scope :: "Manager \<Rightarrow> UnitFileScope" where
  "unit_file_scope m = (if running_as m = SYSTEMD_SYSTEM then UNIT_FILE_SYSTEM else UNIT_FILE_USER)"

definition method_enable_unit_files_generic ::
  "Env \<Rightarrow> sd_bus \<Rightarrow> sd_bus_message \<Rightarrow> Manager \<Rightarrow> string \<Rightarrow> enable_call \<Rightarrow> bool \<Rightarrow> result \<times> Manager \<times> event list" where
  "method_enable_unit_files_generic env b message m verb call carries_install_info =
     (case selinux_access_check env b message verb of
        Some f \<Rightarrow> (Failed f, m, [EvAccessCheck verb])
      | None \<Rightarrow>
          (case sd_bus_message_read_strv (body message) of
             Inl r \<Rightarrow> (Failed (Errno r), m, [EvAccessCheck verb])
           | Inr (l, rest) \<Rightarrow>
               (case sd_bus_message_read_bb rest of
                  Inl r \<Rightarrow> (Failed (Errno r), m, [EvAccessCheck verb])
                | Inr ((runtime, force), rest') \<Rightarrow>
                    (case call (unit_file_scope m) runtime l force of
                       (r, changes) \<Rightarrow>
                         if r < 0 then (Failed (Errno r), m, [EvAccessCheck verb, EvUnitFileCall])
                         else
                           (case reply_unit_file_changes_and_free env m b message
                                   (if carries_install_info then r else - 1) changes of
                              (res, evs) \<Rightarrow> (res, m, [EvAccessCheck verb, EvUnitFileCall] @ evs))))))"

definition method_disable_unit_files_generic ::
  "Env \<Rightarrow> sd_bus \<Rightarrow> sd_bus_message \<Rightarrow> Manager \<Rightarrow> string \<Rightarrow> disable_call \<Rightarrow> result \<times> Manager \<times> event list" where
  "method_disable_unit_files_generic env b message m verb call =
     (case selinux_access_check env b message verb of
        Some f \<Rightarrow> (Failed f, m, [EvAccessCheck verb])
      | None \<Rightarrow>
          (case sd_bus_message_read_strv (body message) of
             Inl r \<Rightarrow> (Failed (Errno r), m, [EvAccessCheck verb])
           | Inr (l, rest) \<Rightarrow>
               (case sd_bus_message_read_b rest of
                  Inl r \<Rightarrow> (Failed (Errno r), m, [EvAccessCheck verb])
                | Inr (runtime, rest') \<Rightarrow>
                    (case call (unit_file_scope m) runtime l of
                       (r, changes) \<Rightarrow>
                         if r < 0 then (Failed (Errno r), m, [EvAccessCheck verb, EvUnitFileCall])
                         else
                           (case reply_unit_file_changes_and_free env m b message (- 1) changes of
                              (res, evs) \<Rightarrow> (res, m, [EvAccessCheck verb, EvUnitFileCall] @ evs))))))"

definition method_enable_unit_files :: "Env \<Rightarrow> Install \<Rightarrow> sd_bus \<Rightarrow> sd_bus_message \<Rightarrow> Manager \<Rightarrow> result \<times> Manager \<times> event list" where
  "method_enable_unit_files env inst b message m =
     method_enable_unit_files_generic env b message m ''enable'' (unit_file_enable inst) True"

definition method_reenable_unit_files :: "Env \<Rightarrow> Install \<Rightarrow> sd_bus \<Rightarrow> sd_bus_message \<Rightarrow> Manager \<Rightarrow> result \<times> Manager \<times> event list" where
  "method_reenable_unit_files env inst b message m =
     method_enable_unit_files_generic env b message m ''enable'' (unit_file_reenable inst) True"

definition method_link_unit_files :: "Env \<Rightarrow> Install \<Rightarrow> sd_bus \<Rightarrow> sd_bus_message \<Rightarrow> Manager \<Rightarrow> result \<times> Manager \<times> event list" where
  "method_link_unit_files env inst b message m =
     method_enable_unit_files_generic env b message m ''enable'' (unit_file_link inst) False"

definition method_preset_unit_files :: "Env \<Rightarrow> Install \<Rightarrow> sd_bus \<Rightarrow> sd_bus_message \<Rightarrow> Manager \<Rightarrow> result \<times> Manager \<times> event list" where
  "method_preset_unit_files env inst b message m =
     method_enable_unit_files_generic env b message m ''enable'' (unit_file_preset inst) True"

definition method_mask_unit_files :: "Env \<Rightarrow> Install \<Rightarrow> sd_bus \<Rightarrow> sd_bus_message \<Rightarrow> Manager \<Rightarrow> result \<times> Manager \<times> event list" where
  "method_mask_unit_files env inst b message m =
     method_enable_unit_files_generic env b message m ''disable'' (unit_file_mask inst) False"

definition method_disable_unit_files :: "Env \<Rightarrow> Install \<Rightarrow> sd_bus \<Rightarrow> sd_bus_message \<Rightarrow> Manager \<Rightarrow> result \<times> Manager \<times> event list" where
  "method_disable_unit_files env inst b message m =
     method_disable_unit_files_generic env b message m ''disable'' (unit_file_disable inst)"

definition method_unmask_unit_files :: "Env \<Rightarrow> Install \<Rightarrow> sd_bus \<Rightarrow> sd_bus_message \<Rightarrow> Manager \<Rightarrow> result \<times> Manager \<times> event list" where
  "method_unmask_unit_files env inst b message m =
     method_disable_unit_files_generic env b message m ''enable'' (unit_file_unmask inst)"

definition method_set_default_target :: "Env \<Rightarrow> Install \<Rightarrow> sd_bus \<Rightarrow> sd_bus_message \<Rightarrow> Manager \<Rightarrow> result \<times> Manager \<times> event list" where
  "method_set_default_target env inst b message m =
     (case selinux_access_check env b message ''enable'' of
        Some f \<Rightarrow> (Failed f, m, [EvAccessCheck ''enable''])
      | None \<Rightarrow>
          (case sd_bus_message_read_sb (body message) of
             Inl r \<Rightarrow> (Failed (Errno r), m, [EvAccessCheck ''enable''])
           | Inr ((n, force), rest) \<Rightarrow>
               (case unit_file_set_default inst (unit_file_scope m) n force of
                  (r, changes) \<Rightarrow>
                    if r < 0 then (Failed (Errno r), m, [EvAccessCheck ''enable'', EvUnitFileCall])
                    else
                      (case reply_unit_file_changes_and_free env m b message (- 1) changes of
                         (res, evs) \<Rightarrow> (res, m, [EvAccessCheck ''enable'', EvUnitFileCall] @ evs)))))"

text \<open>The eight batch operations, as the method table names them.\<close>

datatype unit_file_method =
    EnableUnitFiles
  | DisableUnitFiles
  | ReenableUnitFiles
  | LinkUnitFiles
  | PresetUnitFiles
  | MaskUnitFiles
  | UnmaskUnitFiles
  | SetDefaultTarget

fun unit_file_handler ::
  "unit_file_method \<Rightarrow> Env \<Rightarrow> Install \<Rightarrow> sd_bus \<Rightarrow> sd_bus_message \<Rightarrow> Manager \<Rightarrow> result \<times> Manager \<times> event list" where
  "unit_file_handler EnableUnitFiles = method_enable_unit_files"
| "unit_file_handler DisableUnitFiles = method_disable_unit_files"
| "unit_file_handler ReenableUnitFiles = method_reenable_unit_files"
| "unit_file_handler LinkUnitFiles = method_link_unit_files"
| "unit_file_handler PresetUnitFiles = method_preset_unit_files"
| "unit_file_handler MaskUnitFiles = method_mask_unit_files"
| "unit_file_handler UnmaskUnitFiles = method_unmask_unit_files"
| "unit_file_handler SetDefaultTarget = method_set_default_target"

subsection \<open>The collaborators of the other handlers\<close>



subsection \<open>GetUnitByPID, LoadUnit and the handlers that hand a unit to dbus-unit.c\<close>















subsection \<open>StartTransientUnit\<close>



subsection \<open>CancelJob, ClearJobs, ResetFailed\<close>




subsection \<open>ListJobs, Dump, CreateSnapshot\<close>






subsection \<open>SetEnvironment, UnsetEnvironment, UnsetAndSetEnvironment\<close>




subsection \<open>ListUnitFiles, GetUnitFileState, GetDefaultTarget\<close>





subsection \<open>The property accessors of the file\<close>













text \<open>The connections a delivery to everybody is addressed to, and the test of the loop.\<close>

definition send_failed :: "(sd_bus \<Rightarrow> string option \<Rightarrow> int) \<Rightarrow> sd_bus \<Rightarrow> bool" where
  "send_failed send_message b = (send_message b None < 0)"

definition broadcast_to :: "sd_bus list \<Rightarrow> send list" where
  "broadcast_to bs = map (\<lambda>b. (b, None)) bs"

definition open_connections :: "Manager \<Rightarrow> sd_bus list" where
  "open_connections m = private_buses m @ (case api_bus m of Some a \<Rightarrow> [a] | None \<Rightarrow> [])"

subsection \<open>Concrete managers and callbacks\<close>

definition manager_empty :: Manager where
  "manager_empty =
     \<lparr> units = [], jobs = [], subscribed = [], private_buses = [], api_bus = None,
       queued_message = None, queued_message_bus = None, exit_code = MANAGER_RUNNING,
       running_as = SYSTEMD_SYSTEM, switch_root = None, switch_root_init = None,
       taint_usr = False, finish_timestamp = 0, n_installed_jobs = 0, runtime_watchdog = 0 \<rparr>"

definition client :: "sd_bus \<Rightarrow> string \<Rightarrow> BusTrackedClient" where
  "client b n = \<lparr> bus = b, name = n \<rparr>"

text \<open>Two subscribers, two private connections (1 and 2) and the api bus (0).\<close>

definition manager_two_subscribers :: Manager where
  "manager_two_subscribers =
     manager_empty \<lparr> subscribed := [client 1 '':1.7'', client 2 []],
                     private_buses := [1, 2], api_bus := Some 0 \<rparr>"

definition manager_one_subscriber :: Manager where
  "manager_one_subscriber =
     manager_empty \<lparr> subscribed := [client 0 '':1.7''],
                     private_buses := [1, 2], api_bus := Some 0 \<rparr>"

definition manager_no_subscriber :: Manager where
  "manager_no_subscriber = manager_empty \<lparr> private_buses := [1, 2], api_bus := Some 0 \<rparr>"

definition send_ok :: "sd_bus \<Rightarrow> string option \<Rightarrow> int" where
  "send_ok b destination = 0"

definition send_fails_on :: "sd_bus \<Rightarrow> sd_bus \<Rightarrow> string option \<Rightarrow> int" where
  "send_fails_on bad b destination = (if b = bad then - EPIPE else 0)"

definition fault_kind :: "result \<Rightarrow> bus_error option" where
  "fault_kind res = (case res of Failed (Fault e text) \<Rightarrow> Some e | _ \<Rightarrow> None)"

definition is_failed :: "result \<Rightarrow> bool" where
  "is_failed res = (case res of Failed f \<Rightarrow> True | _ \<Rightarrow> False)"

definition is_foreach_client :: "event \<Rightarrow> bool" where
  "is_foreach_client ev = (case ev of EvForeachClient r sent \<Rightarrow> True | _ \<Rightarrow> False)"

definition broadcasts :: "event list \<Rightarrow> event list" where
  "broadcasts evs = filter is_foreach_client evs"

text \<open>An environment in which every check passes and nothing fails, and one that denies.\<close>

definition env_allow :: Env where
  "env_allow =
     \<lparr> selinux_access_check = (\<lambda>b message permission. None),
       selinux_unit_access_check = (\<lambda>u b message permission. None),
       sd_bus_message_new_method_return = (\<lambda>message. 0),
       sd_bus_message_open_container = (\<lambda>message contents. 0),
       sd_bus_message_append = (\<lambda>message item. 0),
       sd_bus_message_close_container = (\<lambda>message. 0),
       sd_bus_message_new_signal = (\<lambda>b member. 0),
       sd_bus_send_to = (\<lambda>b member destination. 0),
       unit_dbus_path = (\<lambda>u. Some (''/org/freedesktop/systemd1/unit/'' @ id_unit u)),
       job_dbus_path = (\<lambda>j. Some (''/org/freedesktop/systemd1/job/'' @ string_of_uint (id_job j))),
       unit_description = (\<lambda>u. id_unit u),
       unit_load_state_to_string = (\<lambda>st. ''loaded''),
       unit_active_state = (\<lambda>u. 0),
       unit_active_state_to_string = (\<lambda>st. ''active''),
       unit_sub_state_to_string = (\<lambda>u. ''running''),
       unit_following = (\<lambda>u. None),
       job_type_to_string = (\<lambda>t. ''start''),
       unit_file_change_type_to_string = (\<lambda>t. ''symlink''),
       path_equal = (\<lambda>a c. a = c),
       path_is_absolute = (\<lambda>p. case p of [] \<Rightarrow> False | c # cs \<Rightarrow> c = CHR ''/''),
       path_is_os_tree = (\<lambda>p. True),
       access_X_OK = (\<lambda>p. True),
       strdup = (\<lambda>p. Some p),
       strappend = (\<lambda>a c. Some (a @ c)),
       bus_snapshot_method_remove = (\<lambda>b message u m. (Replied ReplyEmpty, m)) \<rparr>"

definition access_denied :: failure where
  "access_denied = Fault SD_BUS_ERROR_ACCESS_DENIED ''SELinux policy denies access.''"

definition env_deny :: Env where
  "env_deny =
     env_allow \<lparr> selinux_access_check := (\<lambda>b message permission. Some access_denied),
                 selinux_unit_access_check := (\<lambda>u b message permission. Some access_denied) \<rparr>"

definition request :: "bus_arg list \<Rightarrow> sd_bus_message" where
  "request args = \<lparr> sender = '':1.7'', body = args \<rparr>"

definition unit_a :: Unit where
  "unit_a = \<lparr> id_unit = ''a.service'', type_unit = UNIT_SERVICE, load_state = 1, job = None \<rparr>"

definition job_7 :: Job where
  "job_7 = \<lparr> id_job = 7, type_job = 0, state_job = 0, unit_job = ''b.target'' \<rparr>"

definition unit_b :: Unit where
  "unit_b = \<lparr> id_unit = ''b.target'', type_unit = UNIT_TARGET, load_state = 1, job = Some job_7 \<rparr>"

text \<open>
  Two units; \<open>a.service\<close> is also entered under the alias \<open>alias.service\<close>, and the job
  of \<open>b.target\<close> is entered under its id.
\<close>

definition manager_two_units :: Manager where
  "manager_two_units =
     manager_empty \<lparr> units := [(''alias.service'', unit_a), (''a.service'', unit_a), (''b.target'', unit_b)],
                     jobs := [(7, job_7)] \<rparr>"

definition manager_user :: Manager where
  "manager_user = manager_empty \<lparr> running_as := SYSTEMD_USER \<rparr>"

definition manager_reload_pending :: Manager where
  "manager_reload_pending =
     manager_empty \<lparr> queued_message := Some (request []), queued_message_bus := Some 1,
                     exit_code := MANAGER_RELOAD \<rparr>"

definition change_1 :: UnitFileChange where
  "change_1 = \<lparr> type_change = 0, path = ''/etc/systemd/system/a.service'',
                 source = ''/usr/lib/systemd/system/a.service'' \<rparr>"

text \<open>
  Unit-file operations for the examples: each one succeeds, with one change for every
  file it is given.
\<close>

definition install_one_change_per_file :: Install where
  "install_one_change_per_file =
     \<lparr> unit_file_enable = (\<lambda>scope runtime files force. (1, map (\<lambda>f. change_1) files)),
       unit_file_reenable = (\<lambda>scope runtime files force. (1, map (\<lambda>f. change_1) files)),
       unit_file_link = (\<lambda>scope runtime files force. (0, map (\<lambda>f. change_1) files)),
       unit_file_preset = (\<lambda>scope runtime files force. (1, map (\<lambda>f. change_1) files)),
       unit_file_mask = (\<lambda>scope runtime files force. (0, map (\<lambda>f. change_1) files)),
       unit_file_disable = (\<lambda>scope runtime files. (0, map (\<lambda>f. change_1) files)),
       unit_file_unmask = (\<lambda>scope runtime files. (0, map (\<lambda>f. change_1) files)),
       unit_file_set_default = (\<lambda>scope n force. (0, [change_1])) \<rparr>"

text \<open>
  What the registry of units has to satisfy: the keys of the hashmap are distinct, and a
  unit that is entered under some name is entered under its id.
\<close>

definition units_wellformed :: "Manager \<Rightarrow> bool" where
  "units_wellformed m =
     (distinct (map fst (units m)) \<and>
      list_all (\<lambda>(k, u). map_of (units m) (id_unit u) = Some u) (units m))"

definition loaded_units :: "Manager \<Rightarrow> Unit list" where
  "loaded_units m = map snd (units m)"

definition entry_id :: "unit_entry \<Rightarrow> string" where
  "entry_id e = fst e"

text \<open>
  The operation a batch handler runs on the arguments of a request: it gives the value
  the operation returns and the changes it reports, or the negative value of the read
  that fails.
\<close>

fun unit_file_verb :: "unit_file_method \<Rightarrow> string" where
  "unit_file_verb EnableUnitFiles = ''enable''"
| "unit_file_verb DisableUnitFiles = ''disable''"
| "unit_file_verb ReenableUnitFiles = ''enable''"
| "unit_file_verb LinkUnitFiles = ''enable''"
| "unit_file_verb PresetUnitFiles = ''enable''"
| "unit_file_verb MaskUnitFiles = ''disable''"
| "unit_file_verb UnmaskUnitFiles = ''enable''"
| "unit_file_verb SetDefaultTarget = ''enable''"

definition enable_call_on :: "enable_call \<Rightarrow> Manager \<Rightarrow> bus_arg list \<Rightarrow> int + (int \<times> UnitFileChange list)" where
  "enable_call_on call m args =
     (case sd_bus_message_read_strv args of
        Inl r \<Rightarrow> Inl r
      | Inr (l, rest) \<Rightarrow>
          (case sd_bus_message_read_bb rest of
             Inl r \<Rightarrow> Inl r
           | Inr ((runtime, force), rest') \<Rightarrow> Inr (call (unit_file_scope m) runtime l force)))"

definition disable_call_on :: "disable_call \<Rightarrow> Manager \<Rightarrow> bus_arg list \<Rightarrow> int + (int \<times> UnitFileChange list)" where
  "disable_call_on call m args =
     (case sd_bus_message_read_strv args of
        Inl r \<Rightarrow> Inl r
      | Inr (l, rest) \<Rightarrow>
          (case sd_bus_message_read_b rest of
             Inl r \<Rightarrow> Inl r
           | Inr (runtime, rest') \<Rightarrow> Inr (call (unit_file_scope m) runtime l)))"

fun unit_file_call :: "unit_file_method \<Rightarrow> Install \<Rightarrow> Manager \<Rightarrow> bus_arg list \<Rightarrow> int + (int \<times> UnitFileChange list)" where
  "unit_file_call EnableUnitFiles inst m args = enable_call_on (unit_file_enable inst) m args"
| "unit_file_call DisableUnitFiles inst m args = disable_call_on (unit_file_disable inst) m args"
| "unit_file_call ReenableUnitFiles inst m args = enable_call_on (unit_file_reenable inst) m args"
| "unit_file_call LinkUnitFiles inst m args = enable_call_on (unit_file_link inst) m args"
| "unit_file_call PresetUnitFiles inst m args = enable_call_on (unit_file_preset inst) m args"
| "unit_file_call MaskUnitFiles inst m args = enable_call_on (unit_file_mask inst) m args"
| "unit_file_call UnmaskUnitFiles inst m args = disable_call_on (unit_file_unmask inst) m args"
| "unit_file_call SetDefaultTarget inst m args =
     (case sd_bus_message_read_sb args of
        Inl r \<Rightarrow> Inl r
      | Inr ((n, force), rest) \<Rightarrow> Inr (unit_file_set_default inst (unit_file_scope m) n force))"



subsection \<open>The method table\<close>

text \<open>
  The methods of \<^verbatim>\<open>bus_manager_vtable\<close>, in the order of the table, and the handler of
  each; the eight batch operations on unit files are those of \<open>unit_file_handler\<close>. The
  accessors are the getters and setters that the file defines for the properties of the
  table.
\<close>

datatype bus_method =
    GetUnit
  | GetUnitByPID
  | LoadUnit
  | StartUnit
  | StartUnitReplace
  | StopUnit
  | ReloadUnit
  | RestartUnit
  | TryRestartUnit
  | ReloadOrRestartUnit
  | ReloadOrTryRestartUnit
  | KillUnit
  | ResetFailedUnit
  | SetUnitProperties
  | StartTransientUnit
  | GetJob
  | CancelJob
  | ClearJobs
  | ResetFailed
  | ListUnits
  | ListJobs
  | Subscribe
  | Unsubscribe
  | Dump
  | CreateSnapshot
  | RemoveSnapshot
  | Reload
  | Reexecute
  | Exit
  | Reboot
  | PowerOff
  | Halt
  | KExec
  | SwitchRoot
  | SetEnvironment
  | UnsetEnvironment
  | UnsetAndSetEnvironment
  | ListUnitFiles
  | GetUnitFileState
  | UnitFiles unit_file_method
  | GetDefaultTarget





subsection \<open>Where a handler makes its access check\<close>









section \<open>Properties\<close>

subsection \<open>The loop over the private connections\<close>

lemma foreach_private_bus_all_ok:
  "\<forall>b \<in> set bs. \<not> send_failed send_message b \<Longrightarrow>
   foreach_private_bus send_message bs = (None, broadcast_to bs)"
  by (induction bs) (simp_all add: send_failed_def broadcast_to_def)

lemma foreach_private_bus_first_failure:
  "foreach_private_bus send_message bs =
     (case dropWhile (\<lambda>b. \<not> send_failed send_message b) bs of
        [] \<Rightarrow> (None, broadcast_to bs)
      | b # rest \<Rightarrow>
          (Some (send_message b None),
           broadcast_to (takeWhile (\<lambda>b. \<not> send_failed send_message b) bs @ [b])))"
proof (induction bs)
  case Nil
  show ?case by (simp add: broadcast_to_def)
next
  case (Cons a bs)
  show ?case
  proof (cases "send_failed send_message a")
    case True
    then show ?thesis by (simp add: send_failed_def broadcast_to_def)
  next
    case False
    then have ok: "\<not> send_message a None < 0" by (simp add: send_failed_def)
    show ?thesis
    proof (cases "dropWhile (\<lambda>b. \<not> send_failed send_message b) bs")
      case Nil
      with False ok Cons.IH show ?thesis
        by (simp add: broadcast_to_def del: dropWhile_eq_Nil_conv)
    next
      case (Cons b rest)
      with False ok Cons.IH show ?thesis
        by (simp add: broadcast_to_def)
    qed
  qed
qed

subsection \<open>Delivery to everybody stops at the first failure\<close>

text \<open>
  C1, as stated, does not hold: with two subscribers, two private connections 1 and 2 and
  the api bus 0, a failure of the send on connection 1 is returned at once, and neither
  connection 2 nor the api bus is sent anything.
\<close>

theorem foreach_client_failure_aborts_counterexample:
  "bus_manager_foreach_client manager_two_subscribers (send_fails_on 1) = (- EPIPE, [(1, None)])
   \<and> (2, None) \<notin> set (snd (bus_manager_foreach_client manager_two_subscribers (send_fails_on 1)))
   \<and> (0, None) \<notin> set (snd (bus_manager_foreach_client manager_two_subscribers (send_fails_on 1)))"
  by (simp add: bus_manager_foreach_client_def manager_two_subscribers_def manager_empty_def
      send_fails_on_def client_def EPIPE_def)

text \<open>
  C1, amended: with two or more subscribers, the private connections are served in
  iteration order up to and including the first one whose send fails; the value of that
  send is returned to the caller and no later connection (private or api bus) is served.
  When no send on a private connection fails, every private connection is served, then
  the api bus if there is one, and the caller gets the value of the send on the api bus
  (0 when there is none).
\<close>

theorem foreach_client_stops_at_first_failure:
  assumes "2 \<le> length (subscribed m)"
  shows "bus_manager_foreach_client m send_message =
     (case dropWhile (\<lambda>b. \<not> send_failed send_message b) (private_buses m) of
        b # rest \<Rightarrow>
          (send_message b None,
           broadcast_to (takeWhile (\<lambda>b. \<not> send_failed send_message b) (private_buses m) @ [b]))
      | [] \<Rightarrow>
          (case api_bus m of
             Some a \<Rightarrow> (send_message a None, broadcast_to (private_buses m @ [a]))
           | None \<Rightarrow> (0, broadcast_to (private_buses m))))"
proof -
  from assms have n: "\<not> length (subscribed m) \<le> 0" "length (subscribed m) \<noteq> 1"
    by auto
  show ?thesis
  proof (cases "dropWhile (\<lambda>b. \<not> send_failed send_message b) (private_buses m)")
    case Nil
    then have "\<forall>b \<in> set (private_buses m). \<not> send_failed send_message b"
      by simp
    then have fp: "foreach_private_bus send_message (private_buses m) = (None, broadcast_to (private_buses m))"
      by (rule foreach_private_bus_all_ok)
    show ?thesis
      unfolding Nil using n fp
      by (simp add: bus_manager_foreach_client_def broadcast_to_def split: option.splits)
  next
    case (Cons c rest)
    have "foreach_private_bus send_message (private_buses m) =
        (Some (send_message c None),
         broadcast_to (takeWhile (\<lambda>b. \<not> send_failed send_message b) (private_buses m) @ [c]))"
      unfolding foreach_private_bus_first_failure [of send_message "private_buses m"] Cons
      by simp
    then show ?thesis
      unfolding Cons using n
      by (simp add: bus_manager_foreach_client_def)
  qed
qed

theorem foreach_client_stops_at_first_failure_witness:
  "2 \<le> length (subscribed manager_two_subscribers) \<and>
   bus_manager_foreach_client manager_two_subscribers (send_fails_on 2) =
     (- EPIPE, [(1, None), (2, None)])"
  using foreach_client_stops_at_first_failure [of manager_two_subscribers "send_fails_on 2"]
  by (simp add: manager_two_subscribers_def manager_empty_def send_fails_on_def send_failed_def
      broadcast_to_def client_def EPIPE_def)

subsection \<open>The number of sends of a delivery\<close>

text \<open>
  C3, as stated, does not hold: with two subscribers and three open connections (the
  private connections 1 and 2 and the api bus 0), a delivery whose send on connection 2
  fails makes two sends, not three: the api bus is not served.
\<close>

theorem deliver_send_count_counterexample:
  "length (subscribed manager_two_subscribers) = 2 \<and>
   open_connections manager_two_subscribers = [1, 2, 0] \<and>
   snd (bus_manager_foreach_client manager_two_subscribers (send_fails_on 2)) = [(1, None), (2, None)]"
  by (simp add: bus_manager_foreach_client_def manager_two_subscribers_def manager_empty_def
      send_fails_on_def client_def EPIPE_def open_connections_def)

text \<open>
  C3, amended: a delivery with no subscriber makes no send; with exactly one subscriber
  it makes exactly one send, on that subscriber's connection and to its destination (no
  destination when the recorded name is empty); with two or more subscribers, and
  provided no send on a private connection fails, it makes one send without destination
  on every private connection and then on the api bus if there is one, whatever the
  number of subscribers.
\<close>

theorem deliver_send_count:
  "(subscribed m = [] \<longrightarrow> snd (bus_manager_foreach_client m send_message) = []) \<and>
   (\<forall>d. subscribed m = [d] \<longrightarrow>
      snd (bus_manager_foreach_client m send_message) =
        [(bus d, if isempty (name d) then None else Some (name d))]) \<and>
   (2 \<le> length (subscribed m) \<and> (\<forall>b \<in> set (private_buses m). \<not> send_failed send_message b) \<longrightarrow>
      snd (bus_manager_foreach_client m send_message) = broadcast_to (open_connections m))"
proof (intro conjI impI allI)
  assume "subscribed m = []"
  then show "snd (bus_manager_foreach_client m send_message) = []"
    by (simp add: bus_manager_foreach_client_def)
next
  fix d assume "subscribed m = [d]"
  then show "snd (bus_manager_foreach_client m send_message) =
        [(bus d, if isempty (name d) then None else Some (name d))]"
    by (simp add: bus_manager_foreach_client_def Let_def)
next
  assume h: "2 \<le> length (subscribed m) \<and> (\<forall>b \<in> set (private_buses m). \<not> send_failed send_message b)"
  then have n: "\<not> length (subscribed m) \<le> 0" "length (subscribed m) \<noteq> 1"
    by auto
  from h have "foreach_private_bus send_message (private_buses m) = (None, broadcast_to (private_buses m))"
    by (simp add: foreach_private_bus_all_ok)
  with n show "snd (bus_manager_foreach_client m send_message) = broadcast_to (open_connections m)"
    by (simp add: bus_manager_foreach_client_def open_connections_def broadcast_to_def
        split: option.splits)
qed

theorem deliver_send_count_witness:
  "snd (bus_manager_foreach_client manager_no_subscriber send_ok) = [] \<and>
   snd (bus_manager_foreach_client manager_one_subscriber send_ok) = [(0, Some '':1.7'')] \<and>
   snd (bus_manager_foreach_client manager_two_subscribers send_ok) = [(1, None), (2, None), (0, None)]"
  using deliver_send_count [of manager_no_subscriber send_ok]
    deliver_send_count [of manager_one_subscriber send_ok]
    deliver_send_count [of manager_two_subscribers send_ok]
  by (simp add: manager_no_subscriber_def manager_one_subscriber_def manager_two_subscribers_def
      manager_empty_def send_ok_def send_failed_def broadcast_to_def open_connections_def
      client_def isempty_def)

subsection \<open>A second Reload while a reply is queued\<close>

text \<open>
  C2, as stated, does not hold: when a reply is already queued, a second Reload request
  that passes the access check does not fail with a fault; the assertion
  \<^verbatim>\<open>assert(!m->queued_message)\<close> fails and the handler does not return.
\<close>

theorem reload_while_pending_counterexample:
  "queued_message manager_reload_pending = Some (request []) \<and>
   method_reload env_allow 1 (request []) manager_reload_pending =
     (Aborted, manager_reload_pending, [EvAccessCheck ''reload'']) \<and>
   \<not> is_failed (fst (method_reload env_allow 1 (request []) manager_reload_pending))"
  by (simp add: method_reload_def env_allow_def manager_reload_pending_def manager_empty_def
      is_failed_def)

text \<open>
  C2, amended: in every state in which a reply is already queued, a second Reload request
  is never queued and the manager is left as it was (the queued reply, its connection
  and the exit code are unchanged, so no second pending reply is created): the request
  fails with the failure of the access check when that check denies it, and otherwise
  trips the assertion that no reply is queued.
\<close>

theorem reload_while_pending:
  assumes "queued_message m \<noteq> None"
  shows "method_reload env b message m =
     ((case selinux_access_check env b message ''reload'' of
         Some f \<Rightarrow> Failed f
       | None \<Rightarrow> Aborted),
      m, [EvAccessCheck ''reload''])"
  using assms by (simp add: method_reload_def split: option.splits)

theorem reload_while_pending_witness:
  "queued_message manager_reload_pending \<noteq> None \<and>
   method_reload env_deny 2 (request []) manager_reload_pending =
     (Failed access_denied, manager_reload_pending, [EvAccessCheck ''reload''])"
  using reload_while_pending [of manager_reload_pending env_deny 2 "request []"]
  by (simp add: env_deny_def env_allow_def manager_reload_pending_def manager_empty_def)

subsection \<open>Resolution of the target and the access check\<close>

lemma reply_unit_file_changes_events:
  "snd (reply_unit_file_changes_and_free env m b message c changes) =
     (if changes = [] then []
      else [EvForeachClient (fst (bus_manager_foreach_client m (send_unit_files_changed env)))
              (snd (bus_manager_foreach_client m (send_unit_files_changed env)))])"
  apply (simp add: reply_unit_file_changes_and_free_def Let_def)
  apply (simp add: case_prod_beta)
  done


























subsection \<open>Subscribe and Unsubscribe\<close>

text \<open>
  C5: for a request that passes the access check, Subscribe from an endpoint that is in
  the registry fails with AlreadySubscribed and leaves the manager unchanged, and
  Unsubscribe from an endpoint that is not in the registry fails with NotSubscribed and
  leaves the manager unchanged. A first Subscribe succeeds and enters the endpoint; the
  Unsubscribe that follows it succeeds and removes the endpoint, so that a second
  Subscribe after the first, and a second Unsubscribe after the first, fail with these
  two faults.
\<close>

theorem subscribe_unsubscribe_faults:
  assumes "selinux_access_check env b message ''status'' = None"
  shows "(\<lparr> bus = b, name = sender message \<rparr> \<in> set (subscribed m) \<longrightarrow>
            method_subscribe env b message m =
              (Failed (Fault BUS_ERROR_ALREADY_SUBSCRIBED ''Client is already subscribed.''), m,
               [EvAccessCheck ''status''])) \<and>
         (\<lparr> bus = b, name = sender message \<rparr> \<notin> set (subscribed m) \<longrightarrow>
            method_unsubscribe env b message m =
              (Failed (Fault BUS_ERROR_NOT_SUBSCRIBED ''Client is not subscribed.''), m,
               [EvAccessCheck ''status''])) \<and>
         (\<lparr> bus = b, name = sender message \<rparr> \<notin> set (subscribed m) \<longrightarrow>
            fst (method_subscribe env b message m) = Replied ReplyEmpty \<and>
            \<lparr> bus = b, name = sender message \<rparr> \<in> set (subscribed (fst (snd (method_subscribe env b message m))))) \<and>
         (\<lparr> bus = b, name = sender message \<rparr> \<in> set (subscribed m) \<longrightarrow>
            fst (method_unsubscribe env b message m) = Replied ReplyEmpty \<and>
            \<lparr> bus = b, name = sender message \<rparr> \<notin> set (subscribed (fst (snd (method_unsubscribe env b message m))))) \<and>
         (\<lparr> bus = b, name = sender message \<rparr> \<notin> set (subscribed m) \<longrightarrow>
            fst (method_subscribe env b message (fst (snd (method_subscribe env b message m)))) =
              Failed (Fault BUS_ERROR_ALREADY_SUBSCRIBED ''Client is already subscribed.'')) \<and>
         (\<lparr> bus = b, name = sender message \<rparr> \<in> set (subscribed m) \<longrightarrow>
            fst (method_unsubscribe env b message (fst (snd (method_unsubscribe env b message m)))) =
              Failed (Fault BUS_ERROR_NOT_SUBSCRIBED ''Client is not subscribed.''))"
  using assms
  by (simp add: method_subscribe_def method_unsubscribe_def bus_client_track_def
      bus_client_untrack_def)

theorem subscribe_unsubscribe_faults_witness:
  "selinux_access_check env_allow 0 (request []) ''status'' = None \<and>
   fst (method_subscribe env_allow 0 (request []) manager_two_subscribers) = Replied ReplyEmpty \<and>
   fst (method_subscribe env_allow 0 (request []) manager_one_subscriber) =
     Failed (Fault BUS_ERROR_ALREADY_SUBSCRIBED ''Client is already subscribed.'') \<and>
   fst (method_unsubscribe env_allow 0 (request []) manager_one_subscriber) = Replied ReplyEmpty \<and>
   fst (method_unsubscribe env_allow 0 (request []) manager_two_subscribers) =
     Failed (Fault BUS_ERROR_NOT_SUBSCRIBED ''Client is not subscribed.'')"
  using subscribe_unsubscribe_faults [of env_allow 0 "request []" manager_two_subscribers]
    subscribe_unsubscribe_faults [of env_allow 0 "request []" manager_one_subscriber]
  by (simp add: env_allow_def request_def manager_two_subscribers_def manager_one_subscriber_def
      manager_empty_def client_def)

subsection \<open>SwitchRoot and its root argument\<close>

text \<open>
  C6, as stated, does not hold: on a manager that does not run as a system instance, a
  SwitchRoot request with the root \<open>/\<close> fails with NotSupported, not with
  InvalidArguments; the runtime mode is tested before the arguments are read.
\<close>

theorem switch_root_user_instance_counterexample:
  "method_switch_root env_allow 1 (request [ArgS ''/'', ArgS []]) manager_user =
     (Failed (Fault SD_BUS_ERROR_NOT_SUPPORTED ''KExec is only supported for system managers.''),
      manager_user, [EvAccessCheck ''reboot'']) \<and>
   fault_kind (fst (method_switch_root env_allow 1 (request [ArgS ''/'', ArgS []]) manager_user))
     \<noteq> Some SD_BUS_ERROR_INVALID_ARGS"
  by (simp add: method_switch_root_def env_allow_def manager_user_def manager_empty_def
      fault_kind_def)

text \<open>
  C6, amended: a SwitchRoot request whose root argument is equal to \<open>/\<close> (in the sense of
  \<^verbatim>\<open>path_equal\<close>) or is not an absolute path fails, with the manager unchanged (so the
  stored switch-root and switch-root-init fields keep their values) and without any look
  at the file system: the only call made is the access check. The fault is
  InvalidArguments when the request passes the access check and the manager runs as a
  system instance; on a manager that does not run as a system instance it is
  NotSupported.
\<close>

theorem switch_root_rejects_bad_root:
  assumes "sd_bus_message_read_ss (body message) = Inr ((root, init), rest)"
    and "path_equal env root ''/'' \<or> \<not> path_is_absolute env root"
  shows "is_failed (fst (method_switch_root env b message m)) \<and>
         snd (method_switch_root env b message m) = (m, [EvAccessCheck ''reboot'']) \<and>
         (selinux_access_check env b message ''reboot'' = None \<and> running_as m = SYSTEMD_SYSTEM \<longrightarrow>
            fst (method_switch_root env b message m) =
              Failed (Fault SD_BUS_ERROR_INVALID_ARGS (''Invalid switch root path '' @ root))) \<and>
         (selinux_access_check env b message ''reboot'' = None \<and> running_as m \<noteq> SYSTEMD_SYSTEM \<longrightarrow>
            fst (method_switch_root env b message m) =
              Failed (Fault SD_BUS_ERROR_NOT_SUPPORTED ''KExec is only supported for system managers.''))"
  using assms
  by (auto simp add: method_switch_root_def is_failed_def split: option.splits)

theorem switch_root_rejects_bad_root_witness:
  "method_switch_root env_allow 1 (request [ArgS ''/'', ArgS ''/sbin/init'']) manager_empty =
     (Failed (Fault SD_BUS_ERROR_INVALID_ARGS ''Invalid switch root path /''), manager_empty,
      [EvAccessCheck ''reboot'']) \<and>
   method_switch_root env_allow 1 (request [ArgS ''sysroot'', ArgS []]) manager_empty =
     (Failed (Fault SD_BUS_ERROR_INVALID_ARGS ''Invalid switch root path sysroot''), manager_empty,
      [EvAccessCheck ''reboot''])"
  using switch_root_rejects_bad_root [of "request [ArgS ''/'', ArgS ''/sbin/init'']" "''/''" "''/sbin/init''" "[]" env_allow 1 manager_empty]
    switch_root_rejects_bad_root [of "request [ArgS ''sysroot'', ArgS []]" "''sysroot''" "[]" "[]" env_allow 1 manager_empty]
  by (simp add: env_allow_def request_def manager_empty_def sd_bus_message_read_ss_def prod_eq_iff)

subsection \<open>The exit code of the lifecycle operations\<close>

text \<open>
  For a request that passes the access check: Reboot, PowerOff, Halt, KExec and
  SwitchRoot fail with NotSupported, and change nothing, on a manager that does not run
  as a system instance; Exit does so on one that does. Where they are allowed, Exit,
  Reboot, PowerOff, Halt and KExec record their exit code.
\<close>

lemma lifecycle_gated_on_running_as:
  assumes "\<forall>p. selinux_access_check env b message p = None"
  shows "(running_as m \<noteq> SYSTEMD_SYSTEM \<longrightarrow>
            fault_kind (fst (method_reboot env b message m)) = Some SD_BUS_ERROR_NOT_SUPPORTED \<and>
            fst (snd (method_reboot env b message m)) = m \<and>
            fault_kind (fst (method_poweroff env b message m)) = Some SD_BUS_ERROR_NOT_SUPPORTED \<and>
            fst (snd (method_poweroff env b message m)) = m \<and>
            fault_kind (fst (method_halt env b message m)) = Some SD_BUS_ERROR_NOT_SUPPORTED \<and>
            fst (snd (method_halt env b message m)) = m \<and>
            fault_kind (fst (method_kexec env b message m)) = Some SD_BUS_ERROR_NOT_SUPPORTED \<and>
            fst (snd (method_kexec env b message m)) = m \<and>
            fault_kind (fst (method_switch_root env b message m)) = Some SD_BUS_ERROR_NOT_SUPPORTED \<and>
            fst (snd (method_switch_root env b message m)) = m \<and>
            method_exit env b message m =
              (Replied ReplyEmpty, m \<lparr> exit_code := MANAGER_EXIT \<rparr>, [EvAccessCheck ''halt''])) \<and>
         (running_as m = SYSTEMD_SYSTEM \<longrightarrow>
            fault_kind (fst (method_exit env b message m)) = Some SD_BUS_ERROR_NOT_SUPPORTED \<and>
            fst (snd (method_exit env b message m)) = m \<and>
            method_reboot env b message m =
              (Replied ReplyEmpty, m \<lparr> exit_code := MANAGER_REBOOT \<rparr>, [EvAccessCheck ''reboot'']) \<and>
            method_poweroff env b message m =
              (Replied ReplyEmpty, m \<lparr> exit_code := MANAGER_POWEROFF \<rparr>, [EvAccessCheck ''halt'']) \<and>
            method_halt env b message m =
              (Replied ReplyEmpty, m \<lparr> exit_code := MANAGER_HALT \<rparr>, [EvAccessCheck ''halt'']) \<and>
            method_kexec env b message m =
              (Replied ReplyEmpty, m \<lparr> exit_code := MANAGER_KEXEC \<rparr>, [EvAccessCheck ''reboot'']))"
  using assms
  by (simp add: method_reboot_def method_poweroff_def method_halt_def method_kexec_def
      method_exit_def method_switch_root_def fault_kind_def)

text \<open>SwitchRoot never changes the exit code, whatever the request and the state.\<close>

lemma switch_root_keeps_exit_code:
  "exit_code (fst (snd (method_switch_root env b message m))) = exit_code m"
  by (simp add: method_switch_root_def split: option.splits sum.splits prod.splits)

text \<open>
  C8 says that every lifecycle operation, where the runtime mode allows it, records its
  exit code. SwitchRoot does not: at a request that is allowed (the manager runs as a
  system instance, the access check passes, the root \<open>/sysroot\<close> is an OS tree and no
  init is given) the handler stores the root and replies, but the exit code stays what it
  was (\<open>MANAGER_RUNNING\<close>), whereas KExec in the same state records \<open>MANAGER_KEXEC\<close>.
\<close>

theorem switch_root_records_no_exit_code:
  "method_switch_root env_allow 1 (request [ArgS ''/sysroot'', ArgS []]) manager_empty =
     (Replied ReplyEmpty, manager_empty \<lparr> switch_root := Some ''/sysroot'', switch_root_init := None \<rparr>,
      [EvAccessCheck ''reboot'', EvPathIsOsTree ''/sysroot'']) \<and>
   exit_code (fst (snd (method_switch_root env_allow 1 (request [ArgS ''/sysroot'', ArgS []]) manager_empty)))
     = MANAGER_RUNNING \<and>
   exit_code (fst (snd (method_kexec env_allow 1 (request []) manager_empty))) = MANAGER_KEXEC"
  by (simp add: method_switch_root_def method_kexec_def switch_root_safety_check_def env_allow_def
      request_def manager_empty_def sd_bus_message_read_ss_def isempty_def)

subsection \<open>RemoveSnapshot\<close>

text \<open>
  C10: for a RemoveSnapshot request that passes the access check and names a unit,
  the fault is NoSuchUnit both when no unit of that name is loaded and when the unit of
  that name is not a snapshot; the two faults differ in their message only, so their kind
  does not tell the two cases apart.
\<close>

theorem remove_snapshot_same_fault:
  assumes "selinux_access_check env b message ''stop'' = None"
    and "sd_bus_message_read_s (body message) = Inr (n, rest)"
  shows "(manager_get_unit m n = None \<longrightarrow>
            fst (method_remove_snapshot env b message m) =
              Failed (Fault BUS_ERROR_NO_SUCH_UNIT (''Unit '' @ n @ '' does not exist.''))) \<and>
         (\<forall>u. manager_get_unit m n = Some u \<and> type_unit u \<noteq> UNIT_SNAPSHOT \<longrightarrow>
            fst (method_remove_snapshot env b message m) =
              Failed (Fault BUS_ERROR_NO_SUCH_UNIT (''Unit '' @ n @ '' is not a snapshot''))) \<and>
         (manager_get_unit m n = None \<or>
          (\<exists>u. manager_get_unit m n = Some u \<and> type_unit u \<noteq> UNIT_SNAPSHOT) \<longrightarrow>
            fault_kind (fst (method_remove_snapshot env b message m)) = Some BUS_ERROR_NO_SUCH_UNIT)"
  using assms
  by (auto simp add: method_remove_snapshot_def fault_kind_def)

theorem remove_snapshot_same_fault_witness:
  "fst (method_remove_snapshot env_allow 1 (request [ArgS ''ghost.snapshot'']) manager_two_units) =
     Failed (Fault BUS_ERROR_NO_SUCH_UNIT ''Unit ghost.snapshot does not exist.'') \<and>
   fst (method_remove_snapshot env_allow 1 (request [ArgS ''a.service'']) manager_two_units) =
     Failed (Fault BUS_ERROR_NO_SUCH_UNIT ''Unit a.service is not a snapshot'')"
  using remove_snapshot_same_fault [of env_allow 1 "request [ArgS ''ghost.snapshot'']" "''ghost.snapshot''" "[]" manager_two_units]
    remove_snapshot_same_fault [of env_allow 1 "request [ArgS ''a.service'']" "''a.service''" "[]" manager_two_units]
  by (simp add: env_allow_def request_def manager_two_units_def manager_empty_def
      manager_get_unit_def unit_a_def unit_b_def)

subsection \<open>UnitFilesChanged after a batch operation on unit files\<close>

lemma reply_unit_file_changes_broadcasts:
  "broadcasts (snd (reply_unit_file_changes_and_free env m b message carries_install_info changes)) =
     (if changes = [] then []
      else [EvForeachClient (fst (bus_manager_foreach_client m (send_unit_files_changed env)))
              (snd (bus_manager_foreach_client m (send_unit_files_changed env)))])"
  by (simp add: reply_unit_file_changes_events broadcasts_def is_foreach_client_def)

lemma enable_generic_broadcasts:
  "broadcasts (snd (snd (method_enable_unit_files_generic env b message m verb call carries_install_info))) =
     (case selinux_access_check env b message verb of
        Some f \<Rightarrow> []
      | None \<Rightarrow>
          (case enable_call_on call m (body message) of
             Inl r \<Rightarrow> []
           | Inr (r, changes) \<Rightarrow>
               if r < 0 \<or> changes = [] then []
               else [EvForeachClient (fst (bus_manager_foreach_client m (send_unit_files_changed env)))
                       (snd (bus_manager_foreach_client m (send_unit_files_changed env)))]))"
proof -
  have b0: "broadcasts [] = []" "\<And>p. broadcasts [EvAccessCheck p] = []"
    "\<And>p evs. broadcasts (EvAccessCheck p # EvUnitFileCall # evs) = broadcasts evs"
    by (simp_all add: broadcasts_def is_foreach_client_def)
  show ?thesis
    unfolding method_enable_unit_files_generic_def enable_call_on_def
    by (simp add: b0 reply_unit_file_changes_broadcasts case_prod_beta
        split: option.splits sum.splits)
qed

lemma disable_generic_broadcasts:
  "broadcasts (snd (snd (method_disable_unit_files_generic env b message m verb call))) =
     (case selinux_access_check env b message verb of
        Some f \<Rightarrow> []
      | None \<Rightarrow>
          (case disable_call_on call m (body message) of
             Inl r \<Rightarrow> []
           | Inr (r, changes) \<Rightarrow>
               if r < 0 \<or> changes = [] then []
               else [EvForeachClient (fst (bus_manager_foreach_client m (send_unit_files_changed env)))
                       (snd (bus_manager_foreach_client m (send_unit_files_changed env)))]))"
proof -
  have b0: "broadcasts [] = []" "\<And>p. broadcasts [EvAccessCheck p] = []"
    "\<And>p evs. broadcasts (EvAccessCheck p # EvUnitFileCall # evs) = broadcasts evs"
    by (simp_all add: broadcasts_def is_foreach_client_def)
  show ?thesis
    unfolding method_disable_unit_files_generic_def disable_call_on_def
    by (simp add: b0 reply_unit_file_changes_broadcasts case_prod_beta
        split: option.splits sum.splits)
qed

lemma set_default_target_broadcasts:
  "broadcasts (snd (snd (method_set_default_target env inst b message m))) =
     (case selinux_access_check env b message ''enable'' of
        Some f \<Rightarrow> []
      | None \<Rightarrow>
          (case unit_file_call SetDefaultTarget inst m (body message) of
             Inl r \<Rightarrow> []
           | Inr (r, changes) \<Rightarrow>
               if r < 0 \<or> changes = [] then []
               else [EvForeachClient (fst (bus_manager_foreach_client m (send_unit_files_changed env)))
                       (snd (bus_manager_foreach_client m (send_unit_files_changed env)))]))"
proof -
  have b0: "broadcasts [] = []" "\<And>p. broadcasts [EvAccessCheck p] = []"
    "\<And>p evs. broadcasts (EvAccessCheck p # EvUnitFileCall # evs) = broadcasts evs"
    by (simp_all add: broadcasts_def is_foreach_client_def)
  show ?thesis
    unfolding method_set_default_target_def unit_file_call.simps
    by (simp add: b0 reply_unit_file_changes_broadcasts case_prod_beta
        split: option.splits sum.splits)
qed

lemma unit_file_handler_broadcasts:
  "broadcasts (snd (snd (unit_file_handler meth env inst b message m))) =
     (case selinux_access_check env b message (unit_file_verb meth) of
        Some f \<Rightarrow> []
      | None \<Rightarrow>
          (case unit_file_call meth inst m (body message) of
             Inl r \<Rightarrow> []
           | Inr (r, changes) \<Rightarrow>
               if r < 0 \<or> changes = [] then []
               else [EvForeachClient (fst (bus_manager_foreach_client m (send_unit_files_changed env)))
                       (snd (bus_manager_foreach_client m (send_unit_files_changed env)))]))"
proof (cases meth)
  case EnableUnitFiles
  show ?thesis
    unfolding EnableUnitFiles unit_file_handler.simps unit_file_verb.simps unit_file_call.simps
    by (simp add: method_enable_unit_files_def enable_generic_broadcasts)
next
  case DisableUnitFiles
  show ?thesis
    unfolding DisableUnitFiles unit_file_handler.simps unit_file_verb.simps unit_file_call.simps
    by (simp add: method_disable_unit_files_def disable_generic_broadcasts)
next
  case ReenableUnitFiles
  show ?thesis
    unfolding ReenableUnitFiles unit_file_handler.simps unit_file_verb.simps unit_file_call.simps
    by (simp add: method_reenable_unit_files_def enable_generic_broadcasts)
next
  case LinkUnitFiles
  show ?thesis
    unfolding LinkUnitFiles unit_file_handler.simps unit_file_verb.simps unit_file_call.simps
    by (simp add: method_link_unit_files_def enable_generic_broadcasts)
next
  case PresetUnitFiles
  show ?thesis
    unfolding PresetUnitFiles unit_file_handler.simps unit_file_verb.simps unit_file_call.simps
    by (simp add: method_preset_unit_files_def enable_generic_broadcasts)
next
  case MaskUnitFiles
  show ?thesis
    unfolding MaskUnitFiles unit_file_handler.simps unit_file_verb.simps unit_file_call.simps
    by (simp add: method_mask_unit_files_def enable_generic_broadcasts)
next
  case UnmaskUnitFiles
  show ?thesis
    unfolding UnmaskUnitFiles unit_file_handler.simps unit_file_verb.simps unit_file_call.simps
    by (simp add: method_unmask_unit_files_def disable_generic_broadcasts)
next
  case SetDefaultTarget
  show ?thesis
    unfolding SetDefaultTarget unit_file_handler.simps unit_file_verb.simps
    by (rule set_default_target_broadcasts)
qed

text \<open>
  C7: for each of the eight batch operations on unit files, a request whose operation
  reports an empty sequence of changes leads to no call of the fan-out, hence to no
  UnitFilesChanged signal; a request that passes the access check and whose operation
  succeeds (it returns a value that is not negative) with a sequence of changes that is
  not empty leads to exactly one call of the fan-out, the one that delivers
  UnitFilesChanged to the clients of the manager.
\<close>

theorem unit_files_changed_broadcast:
  "(\<forall>r. unit_file_call meth inst m (body message) = Inr (r, []) \<longrightarrow>
      broadcasts (snd (snd (unit_file_handler meth env inst b message m))) = []) \<and>
   (\<forall>r changes.
      selinux_access_check env b message (unit_file_verb meth) = None \<and>
      unit_file_call meth inst m (body message) = Inr (r, changes) \<and> 0 \<le> r \<and> changes \<noteq> [] \<longrightarrow>
      broadcasts (snd (snd (unit_file_handler meth env inst b message m))) =
        [EvForeachClient (fst (bus_manager_foreach_client m (send_unit_files_changed env)))
           (snd (bus_manager_foreach_client m (send_unit_files_changed env)))])"
proof (intro conjI allI impI)
  fix r
  assume "unit_file_call meth inst m (body message) = Inr (r, [])"
  then show "broadcasts (snd (snd (unit_file_handler meth env inst b message m))) = []"
    by (simp add: unit_file_handler_broadcasts split: option.splits)
next
  fix r changes
  assume "selinux_access_check env b message (unit_file_verb meth) = None \<and>
      unit_file_call meth inst m (body message) = Inr (r, changes) \<and> 0 \<le> r \<and> changes \<noteq> []"
  then show "broadcasts (snd (snd (unit_file_handler meth env inst b message m))) =
        [EvForeachClient (fst (bus_manager_foreach_client m (send_unit_files_changed env)))
           (snd (bus_manager_foreach_client m (send_unit_files_changed env)))]"
    by (simp add: unit_file_handler_broadcasts)
qed

theorem unit_files_changed_broadcast_witness:
  "broadcasts (snd (snd (unit_file_handler EnableUnitFiles env_allow install_one_change_per_file 0
      (request [ArgAS [], ArgB False, ArgB False]) manager_one_subscriber))) = [] \<and>
   broadcasts (snd (snd (unit_file_handler DisableUnitFiles env_allow install_one_change_per_file 0
      (request [ArgAS [''a.service''], ArgB False]) manager_one_subscriber))) =
     [EvForeachClient 0 [(0, Some '':1.7'')]]"
  using unit_files_changed_broadcast [of EnableUnitFiles install_one_change_per_file
      manager_one_subscriber "request [ArgAS [], ArgB False, ArgB False]" env_allow 0]
    unit_files_changed_broadcast [of DisableUnitFiles install_one_change_per_file
      manager_one_subscriber "request [ArgAS [''a.service''], ArgB False]" env_allow 0]
  by (simp add: env_allow_def install_one_change_per_file_def request_def enable_call_on_def
      disable_call_on_def sd_bus_message_read_bb_def manager_one_subscriber_def manager_empty_def
      bus_manager_foreach_client_def send_unit_files_changed_def client_def isempty_def)

subsection \<open>ListUnits and the aliases of a unit\<close>

lemma count_in_distinct:
  "distinct xs \<Longrightarrow> x \<in> set xs \<Longrightarrow> length (filter (\<lambda>y. y = x) xs) = 1"
  by (induction xs) (auto simp add: filter_empty_conv)

lemma list_all2_right_element:
  "list_all2 P xs ys \<Longrightarrow> x \<in> set xs \<Longrightarrow> \<exists>y \<in> set ys. P x y"
  by (induction rule: list_all2_induct) auto

lemma list_units_entry_id:
  "list_units_entry env u = Inr e \<Longrightarrow> entry_id e = id_unit u"
  by (auto simp add: list_units_entry_def entry_id_def split: option.splits sum.splits)

lemma list_units_entry_allocated:
  assumes "\<forall>u. unit_dbus_path env u \<noteq> None" and "\<forall>j. job_dbus_path env j \<noteq> None"
  shows "\<exists>e. list_units_entry env u = Inr e"
proof -
  from assms(1) have "unit_dbus_path env u \<noteq> None" by blast
  then obtain p where p: "unit_dbus_path env u = Some p" by auto
  show ?thesis
  proof (cases "job u")
    case None
    with p show ?thesis by (simp add: list_units_entry_def)
  next
    case (Some j)
    from assms(2) have "job_dbus_path env j \<noteq> None" by blast
    then obtain q where "job_dbus_path env j = Some q" by auto
    with p Some show ?thesis by (simp add: list_units_entry_def)
  qed
qed

text \<open>
  When no path fails to be allocated and no append fails, the loop gives one entry for
  every key that is the id of its unit, in the order of the iteration, and none for the
  other keys.
\<close>

lemma list_units_loop_entries:
  assumes "\<forall>u. unit_dbus_path env u \<noteq> None" and "\<forall>j. job_dbus_path env j \<noteq> None"
    and "\<forall>item. 0 \<le> sd_bus_message_append env message item"
  shows "\<exists>es. list_units_loop env message xs = Inr es \<and>
           map entry_id es = map fst (filter (\<lambda>(k, u). k = id_unit u) xs) \<and>
           list_all2 (\<lambda>e (k, u). list_units_entry env u = Inr e) es
             (filter (\<lambda>(k, u). k = id_unit u) xs)"
proof (induction xs)
  case Nil
  show ?case by simp
next
  case (Cons x xs)
  obtain k u where x: "x = (k, u)" by (cases x)
  from Cons obtain es where es: "list_units_loop env message xs = Inr es"
    "map entry_id es = map fst (filter (\<lambda>(k, u). k = id_unit u) xs)"
    "list_all2 (\<lambda>e (k, u). list_units_entry env u = Inr e) es (filter (\<lambda>(k, u). k = id_unit u) xs)"
    by blast
  show ?case
  proof (cases "k = id_unit u")
    case False
    with x es show ?thesis by simp
  next
    case True
    from list_units_entry_allocated [OF assms(1,2), of u] obtain e where e: "list_units_entry env u = Inr e"
      by blast
    then have i: "entry_id e = id_unit u" by (rule list_units_entry_id)
    from assms(3) have "\<not> sd_bus_message_append env message (ItemUnitEntry e) < 0"
      by (simp add: not_less)
    with True x es e i show ?thesis by simp
  qed
qed

text \<open>
  C9: for every registry of units that is well formed (the keys of the hashmap are
  distinct and every unit is entered under its id), a ListUnits request that passes the
  access check, and for which the reply can be built (no allocation of the reply, of a
  path or of an entry fails), is answered with a list in which no id occurs twice, which has exactly one entry for every loaded
  unit, also for a unit that is entered under several names, and in which every entry is
  the entry of a loaded unit.
\<close>

theorem list_units_one_entry_per_unit:
  assumes wf: "units_wellformed m"
    and access: "selinux_access_check env b message ''status'' = None"
    and reply: "0 \<le> sd_bus_message_new_method_return env message"
      "0 \<le> sd_bus_message_open_container env message ''(ssssssouso)''"
      "0 \<le> sd_bus_message_close_container env message"
      "\<forall>item. 0 \<le> sd_bus_message_append env message item"
    and paths: "\<forall>u. unit_dbus_path env u \<noteq> None" "\<forall>j. job_dbus_path env j \<noteq> None"
  shows "\<exists>es. method_list_units env b message m = (Replied (ReplyUnits es), m, [EvAccessCheck ''status'']) \<and>
           distinct (map entry_id es) \<and>
           (\<forall>u \<in> set (loaded_units m). length (filter (\<lambda>e. entry_id e = id_unit u) es) = 1) \<and>
           (\<forall>e \<in> set es. \<exists>u \<in> set (loaded_units m). list_units_entry env u = Inr e)"
proof -
  let ?primary = "filter (\<lambda>(k, u). k = id_unit u) (units m)"
  from list_units_loop_entries [OF paths reply(4), of "units m"] obtain es where
    es: "list_units_loop env message (units m) = Inr es"
      "map entry_id es = map fst ?primary"
      "list_all2 (\<lambda>e (k, u). list_units_entry env u = Inr e) es ?primary"
    by blast
  from wf have keys: "distinct (map fst (units m))"
    and ids: "\<forall>(k, u) \<in> set (units m). (id_unit u, u) \<in> set (units m)"
    by (auto simp add: units_wellformed_def list_all_iff dest: map_of_SomeD)
  have res: "method_list_units env b message m = (Replied (ReplyUnits es), m, [EvAccessCheck ''status''])"
    using access reply(1,2,3) es(1) by (simp add: method_list_units_def not_less [symmetric])
  from keys have d: "distinct (map entry_id es)"
    unfolding es(2) by (rule distinct_map_filter)
  have one: "length (filter (\<lambda>e. entry_id e = id_unit u) es) = 1" if "u \<in> set (loaded_units m)" for u
  proof -
    from that obtain k where "(k, u) \<in> set (units m)"
      by (auto simp add: loaded_units_def)
    with ids have "(id_unit u, u) \<in> set (units m)" by auto
    then have "(id_unit u, u) \<in> set ?primary" by simp
    then have "id_unit u \<in> set (map entry_id es)"
      unfolding es(2) by force
    with d have "length (filter (\<lambda>y. y = id_unit u) (map entry_id es)) = 1"
      by (rule count_in_distinct)
    then show ?thesis by (simp add: filter_map comp_def)
  qed
  have loaded: "\<exists>u \<in> set (loaded_units m). list_units_entry env u = Inr e" if "e \<in> set es" for e
  proof -
    from list_all2_right_element [OF es(3) that]
    obtain x where x: "x \<in> set ?primary" "case x of (k, u) \<Rightarrow> list_units_entry env u = Inr e"
      by blast
    obtain k u where "x = (k, u)" by (cases x)
    with x have "(k, u) \<in> set (units m)" "list_units_entry env u = Inr e" by auto
    then show ?thesis by (force simp add: loaded_units_def)
  qed
  from res d one loaded show ?thesis by blast
qed

theorem list_units_one_entry_per_unit_witness:
  "units_wellformed manager_two_units \<and>
   loaded_units manager_two_units = [unit_a, unit_a, unit_b] \<and>
   (\<exists>es. method_list_units env_allow 1 (request []) manager_two_units =
            (Replied (ReplyUnits es), manager_two_units, [EvAccessCheck ''status'']) \<and>
          distinct (map entry_id es) \<and>
          length (filter (\<lambda>e. entry_id e = ''a.service'') es) = 1 \<and>
          length (filter (\<lambda>e. entry_id e = ''b.target'') es) = 1)"
proof -
  have wf: "units_wellformed manager_two_units"
    by (simp add: units_wellformed_def manager_two_units_def manager_empty_def unit_a_def unit_b_def)
  have lu: "loaded_units manager_two_units = [unit_a, unit_a, unit_b]"
    by (simp add: loaded_units_def manager_two_units_def manager_empty_def)
  have ids: "id_unit unit_a = ''a.service''" "id_unit unit_b = ''b.target''"
    by (simp_all add: unit_a_def unit_b_def)
  from list_units_one_entry_per_unit [of manager_two_units env_allow 1 "request []", OF wf]
  have "\<exists>es. method_list_units env_allow 1 (request []) manager_two_units =
            (Replied (ReplyUnits es), manager_two_units, [EvAccessCheck ''status'']) \<and>
          distinct (map entry_id es) \<and>
          (\<forall>u \<in> set (loaded_units manager_two_units). length (filter (\<lambda>e. entry_id e = id_unit u) es) = 1) \<and>
          (\<forall>e \<in> set es. \<exists>u \<in> set (loaded_units manager_two_units). list_units_entry env_allow u = Inr e)"
    by (simp add: env_allow_def)
  then obtain es where es: "method_list_units env_allow 1 (request []) manager_two_units =
            (Replied (ReplyUnits es), manager_two_units, [EvAccessCheck ''status''])"
      "distinct (map entry_id es)"
      "\<forall>u \<in> set (loaded_units manager_two_units). length (filter (\<lambda>e. entry_id e = id_unit u) es) = 1"
    by blast
  from es(3) have "length (filter (\<lambda>e. entry_id e = ''a.service'') es) = 1"
    "length (filter (\<lambda>e. entry_id e = ''b.target'') es) = 1"
    unfolding lu using ids by auto
  with wf lu es(1,2) show ?thesis by blast
qed

end
